theory Spec2Isabelle
  imports Main "HOL-Library.Sublist"
begin

section \<open>The manifest resource and the request payloads\<close>

text \<open>
  The option builders of \<^verbatim>\<open>src/coolify.ts\<close> are static, pure functions from a manifest
  \<^verbatim>\<open>Resource\<close> to the object sent as the body of a create or update request.
  An optional field is an \<open>option\<close> here: \<open>None\<close> is JavaScript's \<^verbatim>\<open>undefined\<close>.
\<close>

text \<open>A JSON scalar, for the values that the builders copy without looking at them.\<close>

datatype jvalue = JString string | JNumber int | JBool bool

text \<open>
  Modelled from the spec: the declarations of \<^verbatim>\<open>HealthCheck\<close> and \<^verbatim>\<open>Resource\<close>
  (manifest.ts), which are not among the sources. The spec's data model gives a resource a
  name, a description, a docker image name and, optionally, an env secret name, domains,
  exposed ports and a health check with the eleven sub-fields below; the test suite builds
  a health check from \<^verbatim>\<open>path\<close> and \<^verbatim>\<open>port\<close> alone, so every sub-field is optional. These
  are the fields \<^verbatim>\<open>coolify.ts\<close> reads.
\<close>

record health_check =
  hc_path :: "jvalue option"
  hc_port :: "jvalue option"
  hc_host :: "jvalue option"
  hc_method :: "jvalue option"
  hc_returnCode :: "jvalue option"
  hc_scheme :: "jvalue option"
  hc_responseText :: "jvalue option"
  hc_interval :: "jvalue option"
  hc_timeout :: "jvalue option"
  hc_retries :: "jvalue option"
  hc_startPeriod :: "jvalue option"

record resource =
  name :: string
  description :: string
  dockerImageName :: string
  envSecretName :: "string option"
  domains :: "string option"
  portsExposes :: "string option"
  healthCheck :: "health_check option"

text \<open>
  Modelled from the spec: the declarations of \<^verbatim>\<open>CoolifyCreateDockerImageAppOptions\<close> and
  \<^verbatim>\<open>CoolifyUpdateAppOptions\<close> (types.ts), which are not among the sources. The fields are
  the keys that the two builders assign; a field is optional when the test suite builds
  an object of the type without it. The health-check keys are the same in both types
  and are kept in one record.
\<close>

record health_fields =
  health_check_enabled :: "bool option"
  health_check_path :: "jvalue option"
  health_check_port :: "jvalue option"
  health_check_host :: "jvalue option"
  health_check_method :: "jvalue option"
  health_check_return_code :: "jvalue option"
  health_check_scheme :: "jvalue option"
  health_check_response_text :: "jvalue option"
  health_check_interval :: "jvalue option"
  health_check_timeout :: "jvalue option"
  health_check_retries :: "jvalue option"
  health_check_start_period :: "jvalue option"

record create_options =
  c_project_uuid :: string
  c_server_uuid :: string
  c_environment_name :: string
  c_environment_uuid :: string
  c_destination_uuid :: "string option"
  c_docker_registry_image_name :: string
  c_docker_registry_image_tag :: "string option"
  c_name :: string
  c_description :: "string option"
  c_domains :: "string option"
  c_ports_exposes :: "string option"
  c_instant_deploy :: "bool option"
  c_health :: health_fields

record update_options =
  u_docker_registry_image_name :: "string option"
  u_docker_registry_image_tag :: "string option"
  u_name :: "string option"
  u_description :: "string option"
  u_domains :: "string option"
  u_ports_exposes :: "string option"
  u_health :: health_fields

text \<open>
  \<^verbatim>\<open>s || undefined\<close> on an optional string: \<^verbatim>\<open>undefined\<close> and the empty string are
  falsy, every other string is kept.
\<close>

definition or_undefined :: "string option \<Rightarrow> string option" where
  "or_undefined v = (case v of None \<Rightarrow> None | Some s \<Rightarrow> if s = [] then None else Some s)"

text \<open>
  The block \<^verbatim>\<open>if (resource.healthCheck) { options.health_check_enabled = true; ... }\<close>,
  which is the same in both builders. An object is always truthy, so the test is a test
  for presence. Before the block no health-check key has been assigned.
\<close>

definition no_health :: health_fields where
  "no_health = \<lparr> health_check_enabled = None, health_check_path = None,
     health_check_port = None, health_check_host = None, health_check_method = None,
     health_check_return_code = None, health_check_scheme = None,
     health_check_response_text = None, health_check_interval = None,
     health_check_timeout = None, health_check_retries = None,
     health_check_start_period = None \<rparr>"

definition health_of :: "health_check option \<Rightarrow> health_fields" where
  "health_of h = (case h of
       None \<Rightarrow> no_health
     | Some hc \<Rightarrow> \<lparr> health_check_enabled = Some True,
         health_check_path = hc_path hc,
         health_check_port = hc_port hc,
         health_check_host = hc_host hc,
         health_check_method = hc_method hc,
         health_check_return_code = hc_returnCode hc,
         health_check_scheme = hc_scheme hc,
         health_check_response_text = hc_responseText hc,
         health_check_interval = hc_interval hc,
         health_check_timeout = hc_timeout hc,
         health_check_retries = hc_retries hc,
         health_check_start_period = hc_startPeriod hc \<rparr>)"

definition buildCreateOptions ::
  "resource \<Rightarrow> string \<Rightarrow> string \<Rightarrow> string \<Rightarrow> string \<Rightarrow> string \<Rightarrow> string \<Rightarrow> create_options" where
  "buildCreateOptions resource projectId serverId environmentName environmentUuid
       destinationUuid dockerTag =
     \<lparr> c_project_uuid = projectId,
       c_server_uuid = serverId,
       c_environment_name = environmentName,
       c_environment_uuid = environmentUuid,
       c_destination_uuid = Some destinationUuid,
       c_docker_registry_image_name = dockerImageName resource,
       c_docker_registry_image_tag = Some dockerTag,
       c_name = name resource,
       c_description = Some (description resource),
       c_domains = or_undefined (domains resource),
       c_ports_exposes = or_undefined (portsExposes resource),
       c_instant_deploy = Some False,
       c_health = health_of (healthCheck resource) \<rparr>"

definition buildUpdateOptions :: "resource \<Rightarrow> string \<Rightarrow> update_options" where
  "buildUpdateOptions resource dockerTag =
     \<lparr> u_docker_registry_image_name = Some (dockerImageName resource),
       u_docker_registry_image_tag = Some dockerTag,
       u_name = Some (name resource),
       u_description = Some (description resource),
       u_domains = or_undefined (domains resource),
       u_ports_exposes = or_undefined (portsExposes resource),
       u_health = health_of (healthCheck resource) \<rparr>"

subsection \<open>The payload on the wire\<close>

text \<open>
  \<^verbatim>\<open>request\<close> sends \<^verbatim>\<open>JSON.stringify(body)\<close>. For an object that is the list of its
  keys with their values, in assignment order, where a key whose value is
  \<^verbatim>\<open>undefined\<close> is left out.
\<close>

fun field :: "string \<Rightarrow> jvalue option \<Rightarrow> (string \<times> jvalue) list" where
  "field k None = []"
| "field k (Some v) = [(k, v)]"

definition stringify_health :: "health_fields \<Rightarrow> (string \<times> jvalue) list" where
  "stringify_health h =
     field ''health_check_enabled'' (map_option JBool (health_check_enabled h)) @
     field ''health_check_path'' (health_check_path h) @
     field ''health_check_port'' (health_check_port h) @
     field ''health_check_host'' (health_check_host h) @
     field ''health_check_method'' (health_check_method h) @
     field ''health_check_return_code'' (health_check_return_code h) @
     field ''health_check_scheme'' (health_check_scheme h) @
     field ''health_check_response_text'' (health_check_response_text h) @
     field ''health_check_interval'' (health_check_interval h) @
     field ''health_check_timeout'' (health_check_timeout h) @
     field ''health_check_retries'' (health_check_retries h) @
     field ''health_check_start_period'' (health_check_start_period h)"

definition stringify_create :: "create_options \<Rightarrow> (string \<times> jvalue) list" where
  "stringify_create opts =
     field ''project_uuid'' (Some (JString (c_project_uuid opts))) @
     field ''server_uuid'' (Some (JString (c_server_uuid opts))) @
     field ''environment_name'' (Some (JString (c_environment_name opts))) @
     field ''environment_uuid'' (Some (JString (c_environment_uuid opts))) @
     field ''destination_uuid'' (map_option JString (c_destination_uuid opts)) @
     field ''docker_registry_image_name'' (Some (JString (c_docker_registry_image_name opts))) @
     field ''docker_registry_image_tag'' (map_option JString (c_docker_registry_image_tag opts)) @
     field ''name'' (Some (JString (c_name opts))) @
     field ''description'' (map_option JString (c_description opts)) @
     field ''domains'' (map_option JString (c_domains opts)) @
     field ''ports_exposes'' (map_option JString (c_ports_exposes opts)) @
     field ''instant_deploy'' (map_option JBool (c_instant_deploy opts)) @
     stringify_health (c_health opts)"

definition stringify_update :: "update_options \<Rightarrow> (string \<times> jvalue) list" where
  "stringify_update opts =
     field ''docker_registry_image_name'' (map_option JString (u_docker_registry_image_name opts)) @
     field ''docker_registry_image_tag'' (map_option JString (u_docker_registry_image_tag opts)) @
     field ''name'' (map_option JString (u_name opts)) @
     field ''description'' (map_option JString (u_description opts)) @
     field ''domains'' (map_option JString (u_domains opts)) @
     field ''ports_exposes'' (map_option JString (u_ports_exposes opts)) @
     stringify_health (u_health opts)"

text \<open>The keys of the health-check group, as they appear on the wire.\<close>

definition health_keys :: "string list" where
  "health_keys = [''health_check_enabled'', ''health_check_path'', ''health_check_port'',
     ''health_check_host'', ''health_check_method'', ''health_check_return_code'',
     ''health_check_scheme'', ''health_check_response_text'', ''health_check_interval'',
     ''health_check_timeout'', ''health_check_retries'', ''health_check_start_period'']"

section \<open>The HTTP transport\<close>

text \<open>
  The client talks to the platform through \<^verbatim>\<open>fetch\<close>. What the code reads of a
  \<^verbatim>\<open>Response\<close> is \<^verbatim>\<open>ok\<close> (true exactly for a 2xx status), \<^verbatim>\<open>status\<close>,
  \<^verbatim>\<open>statusText\<close>, the \<^verbatim>\<open>content-type\<close> header (\<^verbatim>\<open>headers.get\<close> gives null when
  the header is missing) and \<^verbatim>\<open>json()\<close>. The promise of \<^verbatim>\<open>json()\<close> rejects with a
  SyntaxError when the body is not JSON text, which an empty body is not; otherwise it
  resolves to the parsed value, which the code casts (unchecked) to \<^verbatim>\<open>CoolifyApiError\<close>
  on the error path and to the type parameter \<^verbatim>\<open>T\<close> on the success path. The two casts are
  the two views \<open>json_error\<close> and \<open>json\<close> of the same body; \<open>Resolves None\<close> is the
  JSON value null.
\<close>

datatype 'a json_result = Rejects | Resolves 'a

text \<open>
  Modelled from the spec: the declaration of \<^verbatim>\<open>CoolifyApiError\<close> (types.ts), which is not
  among the sources. The error body carries the remote message, which the client reads
  with \<^verbatim>\<open>error?.message\<close> and replaces when it is missing.
\<close>

record api_error =
  message :: "string option"

record 't response =
  ok :: bool
  status :: nat
  statusText :: string
  content_type :: "string option"
  json_error :: "api_error option json_result"
  json :: "'t option json_result"

text \<open>
  A JavaScript exception: \<^verbatim>\<open>new Error(message)\<close> thrown by the client itself, the
  SyntaxError of \<^verbatim>\<open>response.json()\<close>, or the rejection of \<^verbatim>\<open>fetch\<close> when no response
  arrives at all.
\<close>

datatype error = Error string | SyntaxError | FetchFailed

datatype 't fetch_outcome = NoResponse | Responded "'t response"

text \<open>
  Modelled from the spec: the declaration of \<^verbatim>\<open>CoolifyEnvVar\<close> (types.ts), which is not
  among the sources; the spec's env-var entry is a pair of a key and a value.
\<close>

record env_var =
  ev_key :: string
  ev_value :: string

text \<open>The bodies the client sends: the argument \<^verbatim>\<open>body\<close> of \<^verbatim>\<open>request\<close>.\<close>

datatype request_body =
    CreateBody create_options
  | UpdateBody update_options
  | EnvVarsBody "env_var list"
  | DeployBody string

record http_request =
  req_method :: string
  req_url :: string
  req_headers :: "(string \<times> string) list"
  req_body :: "request_body option"

text \<open>
  The world outside the client: the clock read by \<^verbatim>\<open>Date.now()\<close> (milliseconds), the
  requests issued so far (oldest first), the time one round trip takes, and the platform
  itself, which answers the \<open>n\<close>-th request of a run (counted from 0) as a function of
  \<open>n\<close> and of the request. Logging is not modelled: no claim reads the log.
\<close>

record 't world =
  now :: int
  sent :: "http_request list"
  latency :: nat
  server :: "nat \<Rightarrow> http_request \<Rightarrow> 't fetch_outcome"

definition next_response :: "'t world \<Rightarrow> http_request \<Rightarrow> 't fetch_outcome" where
  "next_response w rq = server w (length (sent w)) rq"

definition fetch :: "http_request \<Rightarrow> 't world \<Rightarrow> 't fetch_outcome \<times> 't world" where
  "fetch rq w =
     (next_response w rq, w\<lparr> sent := sent w @ [rq], now := now w + int (latency w) \<rparr>)"

text \<open>
  \<^verbatim>\<open>await new Promise((resolve) => setTimeout(resolve, intervalMs))\<close>. The client runs
  on Node, whose \<^verbatim>\<open>setTimeout\<close> sets a delay that is less than 1 or larger than
  2147483647 to 1 millisecond. The timer fires when the delay has passed.
\<close>

definition timer_delay :: "int \<Rightarrow> int" where
  "timer_delay ms = (if ms < 1 \<or> 2147483647 < ms then 1 else ms)"

definition sleep :: "int \<Rightarrow> 't world \<Rightarrow> 't world" where
  "sleep ms w = w\<lparr> now := now w + timer_delay ms \<rparr>"

section \<open>Strings\<close>

text \<open>\<^verbatim>\<open>String.prototype.includes\<close>: the needle occurs as a contiguous part.\<close>

fun str_includes :: "string \<Rightarrow> string \<Rightarrow> bool" where
  "str_includes [] sub = (sub = [])"
| "str_includes (c # cs) sub = (prefix sub (c # cs) \<or> str_includes cs sub)"

text \<open>Template literals print an integer in decimal.\<close>

definition digit :: "nat \<Rightarrow> char" where
  "digit d = ''0123456789'' ! d"

function show_nat :: "nat \<Rightarrow> string" where
  "show_nat n = (if n < 10 then [digit n] else show_nat (n div 10) @ [digit (n mod 10)])"
  by pat_completeness auto
termination
  by (relation "measure id") auto

declare show_nat.simps [simp del]

definition show_int :: "int \<Rightarrow> string" where
  "show_int i = (if i < 0 then CHR ''-'' # show_nat (nat (- i)) else show_nat (nat i))"

section \<open>The client\<close>

record client =
  baseUrl :: string
  token :: string
  dryRun :: bool

text \<open>
  The constructor removes one trailing slash (\<^verbatim>\<open>baseUrl.replace(/\/$/, "")\<close>);
  \<^verbatim>\<open>dryRun\<close> defaults to false.
\<close>

definition strip_trailing_slash :: "string \<Rightarrow> string" where
  "strip_trailing_slash u = (if u \<noteq> [] \<and> last u = CHR ''/'' then butlast u else u)"

definition CoolifyClient :: "string \<Rightarrow> string \<Rightarrow> bool option \<Rightarrow> client" where
  "CoolifyClient url tok dry =
     \<lparr> baseUrl = strip_trailing_slash url, token = tok,
       dryRun = (case dry of None \<Rightarrow> False | Some b \<Rightarrow> b) \<rparr>"

subsection \<open>request\<close>

definition mk_request :: "client \<Rightarrow> string \<Rightarrow> string \<Rightarrow> request_body option \<Rightarrow> http_request" where
  "mk_request c method path body =
     \<lparr> req_method = method,
       req_url = baseUrl c @ path,
       req_headers = [(''Authorization'', ''Bearer '' @ token c),
                      (''Content-Type'', ''application/json''),
                      (''Accept'', ''application/json'')],
       req_body = body \<rparr>"

text \<open>\<^verbatim>\<open>contentType?.includes("application/json")\<close>, false for a missing header.\<close>

definition is_json :: "string option \<Rightarrow> bool" where
  "is_json ct = (case ct of None \<Rightarrow> False | Some s \<Rightarrow> str_includes s ''application/json'')"

definition token_hint :: string where
  "token_hint = '' - Check your API token permissions (scope).''"

definition http_message :: "'t response \<Rightarrow> string" where
  "http_message r = ''HTTP '' @ show_nat (status r) @ '': '' @ statusText r"

text \<open>\<^verbatim>\<open>error?.message ?? `HTTP ${response.status}: ${response.statusText}`\<close>.\<close>

definition base_message :: "'t response \<Rightarrow> api_error option \<Rightarrow> string" where
  "base_message r err =
     (case err of
        None \<Rightarrow> http_message r
      | Some e \<Rightarrow> (case message e of None \<Rightarrow> http_message r | Some m \<Rightarrow> m))"

definition with_hint :: "'t response \<Rightarrow> string \<Rightarrow> string" where
  "with_hint r msg = (if status r = 401 \<or> status r = 403 then msg @ token_hint else msg)"

text \<open>
  What \<^verbatim>\<open>request\<close> does with the response once \<^verbatim>\<open>fetch\<close> has resolved
  (lines 68 to 96): the failure branch for a response that is not ok, then the body of
  a JSON response, then null for anything else.
\<close>

definition handle_response :: "'t response \<Rightarrow> error + 't option" where
  "handle_response r =
     (if \<not> ok r then
        (if is_json (content_type r) then
           (case json_error r of
              Rejects \<Rightarrow> Inl SyntaxError
            | Resolves err \<Rightarrow> Inl (Error (with_hint r (base_message r err))))
         else Inl (Error (with_hint r (base_message r None))))
      else if is_json (content_type r) then
        (case json r of Rejects \<Rightarrow> Inl SyntaxError | Resolves v \<Rightarrow> Inr v)
      else Inr None)"

definition request ::
  "client \<Rightarrow> string \<Rightarrow> string \<Rightarrow> request_body option \<Rightarrow> 't world \<Rightarrow> (error + 't option) \<times> 't world" where
  "request c method path body w =
     (case fetch (mk_request c method path body) w of
        (NoResponse, w') \<Rightarrow> (Inl FetchFailed, w')
      | (Responded r, w') \<Rightarrow> (handle_response r, w'))"

definition requestRequired ::
  "client \<Rightarrow> string \<Rightarrow> string \<Rightarrow> request_body option \<Rightarrow> 't world \<Rightarrow> (error + 't) \<times> 't world" where
  "requestRequired c method path body w =
     (case request c method path body w of
        (Inl e, w') \<Rightarrow> (Inl e, w')
      | (Inr None, w') \<Rightarrow>
          (Inl (Error (''API request to '' @ path @ '' returned an unexpected null response.'')), w')
      | (Inr (Some v), w') \<Rightarrow> (Inr v, w'))"

subsection \<open>Reading\<close>

text \<open>
  Modelled from the spec: the declarations of \<^verbatim>\<open>CoolifyApplication\<close>,
  \<^verbatim>\<open>CoolifyEnvironment\<close> and \<^verbatim>\<open>CoolifyDeployResponse\<close> (types.ts), which are not among
  the sources. The spec gives a remote application its identity (uuid, name, environment
  id); these are the fields the client reads or writes: the name and the environment id
  of an application, the name of an environment, the status and the uuid of a
  deployment. Servers and environment variables are only passed on, so their type is
  left open.
\<close>

record application =
  app_uuid :: string
  app_name :: string
  environment_id :: int

record environment =
  env_id :: int
  env_name :: string

record deploy_response =
  deploy_status :: string
  deployment_uuid :: string

text \<open>\<^verbatim>\<open>result ?? []\<close>.\<close>

definition or_empty :: "'a list option \<Rightarrow> 'a list" where
  "or_empty result = (case result of None \<Rightarrow> [] | Some xs \<Rightarrow> xs)"

definition listApplications ::
  "client \<Rightarrow> application list world \<Rightarrow> (error + application list) \<times> application list world" where
  "listApplications c w =
     (case request c ''GET'' ''/api/v1/applications'' None w of
        (Inl e, w') \<Rightarrow> (Inl e, w')
      | (Inr result, w') \<Rightarrow> (Inr (or_empty result), w'))"

definition listServers :: "client \<Rightarrow> 's list world \<Rightarrow> (error + 's list) \<times> 's list world" where
  "listServers c w =
     (case request c ''GET'' ''/api/v1/servers'' None w of
        (Inl e, w') \<Rightarrow> (Inl e, w')
      | (Inr result, w') \<Rightarrow> (Inr (or_empty result), w'))"

definition listEnvironments ::
  "client \<Rightarrow> string \<Rightarrow> environment list world \<Rightarrow> (error + environment list) \<times> environment list world" where
  "listEnvironments c projectId w =
     (case request c ''GET'' (''/api/v1/projects/'' @ projectId @ ''/environments'') None w of
        (Inl e, w') \<Rightarrow> (Inl e, w')
      | (Inr result, w') \<Rightarrow> (Inr (or_empty result), w'))"

definition findEnvironmentByName ::
  "client \<Rightarrow> string \<Rightarrow> string \<Rightarrow> environment list world
     \<Rightarrow> (error + environment option) \<times> environment list world" where
  "findEnvironmentByName c projectId nm w =
     (case listEnvironments c projectId w of
        (Inl e, w') \<Rightarrow> (Inl e, w')
      | (Inr environments, w') \<Rightarrow> (Inr (find (\<lambda>env. env_name env = nm) environments), w'))"

definition findApplicationByName ::
  "client \<Rightarrow> string \<Rightarrow> int \<Rightarrow> application list world
     \<Rightarrow> (error + application option) \<times> application list world" where
  "findApplicationByName c nm environmentId w =
     (case listApplications c w of
        (Inl e, w') \<Rightarrow> (Inl e, w')
      | (Inr applications, w') \<Rightarrow>
          (Inr (find (\<lambda>app. app_name app = nm \<and> environment_id app = environmentId) applications),
           w'))"

definition listEnvironmentVariables ::
  "client \<Rightarrow> string \<Rightarrow> 'v list world \<Rightarrow> (error + 'v list) \<times> 'v list world" where
  "listEnvironmentVariables c uuid w =
     (case request c ''GET'' (''/api/v1/applications/'' @ uuid @ ''/envs'') None w of
        (Inl e, w') \<Rightarrow> (Inl e, w')
      | (Inr result, w') \<Rightarrow> (Inr (or_empty result), w'))"

subsection \<open>Writing\<close>

text \<open>
  Modelled from the spec: the declarations of \<^verbatim>\<open>CoolifyCreateUpdateAppResponse\<close> and
  \<^verbatim>\<open>CoolifyInitiateDeployResponse\<close> (types.ts), which are not among the sources. Creation
  answers with a uuid; the deploy trigger answers with a list of deployments, of which the
  client reads the first one's \<^verbatim>\<open>deployment_uuid\<close>, every step of the path being optional.
\<close>

record create_response =
  cr_uuid :: string

record deploy_entry =
  entry_deployment_uuid :: "string option"

record initiate_deploy_response =
  deployments :: "deploy_entry list option"

text \<open>\<^verbatim>\<open>await this.request(...)\<close> in a function that returns nothing: the value is dropped.\<close>

definition discard :: "(error + 'a) \<times> 'w \<Rightarrow> (error + unit) \<times> 'w" where
  "discard res = (case res of (Inl e, w') \<Rightarrow> (Inl e, w') | (Inr _, w') \<Rightarrow> (Inr (), w'))"

definition createDockerImageApplication ::
  "client \<Rightarrow> create_options \<Rightarrow> create_response world
     \<Rightarrow> (error + create_response) \<times> create_response world" where
  "createDockerImageApplication c options w =
     (if dryRun c then (Inr \<lparr> cr_uuid = ''dry-run-uuid'' \<rparr>, w)
      else requestRequired c ''POST'' ''/api/v1/applications/dockerimage'' (Some (CreateBody options)) w)"

definition updateApplication ::
  "client \<Rightarrow> string \<Rightarrow> update_options \<Rightarrow> 't world \<Rightarrow> (error + unit) \<times> 't world" where
  "updateApplication c uuid options w =
     (if dryRun c then (Inr (), w)
      else discard (request c ''PATCH'' (''/api/v1/applications/'' @ uuid) (Some (UpdateBody options)) w))"

definition updateEnvironmentVariables ::
  "client \<Rightarrow> string \<Rightarrow> env_var list \<Rightarrow> 't world \<Rightarrow> (error + unit) \<times> 't world" where
  "updateEnvironmentVariables c uuid envVars w =
     (if dryRun c then (Inr (), w)
      else discard (request c ''PATCH'' (''/api/v1/applications/'' @ uuid @ ''/envs/bulk'')
                      (Some (EnvVarsBody envVars)) w))"

definition deleteEnvironmentVariable ::
  "client \<Rightarrow> string \<Rightarrow> string \<Rightarrow> 't world \<Rightarrow> (error + unit) \<times> 't world" where
  "deleteEnvironmentVariable c appUuid envUuid w =
     (if dryRun c then (Inr (), w)
      else discard (request c ''DELETE'' (''/api/v1/applications/'' @ appUuid @ ''/envs/'' @ envUuid)
                      None w))"

definition deleteApplication :: "client \<Rightarrow> string \<Rightarrow> 't world \<Rightarrow> (error + unit) \<times> 't world" where
  "deleteApplication c uuid w =
     (if dryRun c then (Inr (), w)
      else discard (request c ''DELETE'' (''/api/v1/applications/'' @ uuid) None w))"

text \<open>\<^verbatim>\<open>response?.deployments?.[0]?.deployment_uuid ?? null\<close>.\<close>

definition first_deployment_uuid :: "initiate_deploy_response option \<Rightarrow> string option" where
  "first_deployment_uuid response =
     (case response of
        None \<Rightarrow> None
      | Some r \<Rightarrow> (case deployments r of
          None \<Rightarrow> None
        | Some [] \<Rightarrow> None
        | Some (d # _) \<Rightarrow> entry_deployment_uuid d))"

definition deployApplication ::
  "client \<Rightarrow> string \<Rightarrow> initiate_deploy_response world
     \<Rightarrow> (error + string option) \<times> initiate_deploy_response world" where
  "deployApplication c uuid w =
     (if dryRun c then (Inr (Some ''dry-run-deployment-uuid''), w)
      else (case request c ''POST'' ''/api/v1/deploy'' (Some (DeployBody uuid)) w of
              (Inl e, w') \<Rightarrow> (Inl e, w')
            | (Inr response, w') \<Rightarrow> (Inr (first_deployment_uuid response), w')))"

subsection \<open>Deployments\<close>

definition getDeployment ::
  "client \<Rightarrow> string \<Rightarrow> deploy_response world
     \<Rightarrow> (error + deploy_response option) \<times> deploy_response world" where
  "getDeployment c uuid w =
     (if dryRun c then
        (Inr (Some \<lparr> deploy_status = ''finished'', deployment_uuid = uuid \<rparr>), w)
      else request c ''GET'' (''/api/v1/deployments/'' @ uuid) None w)"

definition failed_message :: "string \<Rightarrow> string" where
  "failed_message uuid = ''Deployment '' @ uuid @ '' failed.''"

definition timeout_message :: "string \<Rightarrow> int \<Rightarrow> string" where
  "timeout_message uuid timeoutMs =
     ''Deployment '' @ uuid @ '' timed out after '' @ show_int timeoutMs @ ''ms''"

text \<open>
  The polling loop of \<^verbatim>\<open>waitForDeployment\<close>. Nothing in the loop bounds the number of
  rounds except the clock, so the loop is a partial function: \<open>None\<close> is a run that never
  leaves it. That every run does leave it is proved below.
\<close>

partial_function (option) poll ::
  "client \<Rightarrow> string \<Rightarrow> int \<Rightarrow> int \<Rightarrow> int \<Rightarrow> deploy_response world
     \<Rightarrow> ((error + deploy_response) \<times> deploy_response world) option" where
  "poll c uuid timeoutMs intervalMs startTime w =
     (if now w - startTime < timeoutMs then
        (case getDeployment c uuid w of
           (Inl e, w1) \<Rightarrow> Some (Inl e, w1)
         | (Inr None, w1) \<Rightarrow> poll c uuid timeoutMs intervalMs startTime (sleep intervalMs w1)
         | (Inr (Some deployment), w1) \<Rightarrow>
             if deploy_status deployment = ''finished'' then Some (Inr deployment, w1)
             else if deploy_status deployment = ''failed'' then
               Some (Inl (Error (failed_message uuid)), w1)
             else poll c uuid timeoutMs intervalMs startTime (sleep intervalMs w1))
      else Some (Inl (Error (timeout_message uuid timeoutMs)), w))"

text \<open>
  \<^verbatim>\<open>waitForDeployment(uuid, timeoutMs = 300000, intervalMs = 2000)\<close>; an argument left
  out is \<open>None\<close>.
\<close>

definition waitForDeployment ::
  "client \<Rightarrow> string \<Rightarrow> int option \<Rightarrow> int option \<Rightarrow> deploy_response world
     \<Rightarrow> ((error + deploy_response) \<times> deploy_response world) option" where
  "waitForDeployment c uuid timeoutArg intervalArg w =
     (let timeoutMs = (case timeoutArg of None \<Rightarrow> 300000 | Some t \<Rightarrow> t);
          intervalMs = (case intervalArg of None \<Rightarrow> 2000 | Some i \<Rightarrow> i)
      in if dryRun c then
           Some (Inr \<lparr> deploy_status = ''finished'', deployment_uuid = uuid \<rparr>, w)
         else poll c uuid timeoutMs intervalMs (now w) w)"

section \<open>Notions used in the statements\<close>

text \<open>The part of a body on the wire that belongs to the health-check group.\<close>

definition health_part :: "(string \<times> jvalue) list \<Rightarrow> (string \<times> jvalue) list" where
  "health_part wire = filter (\<lambda>kv. fst kv \<in> set health_keys) wire"


section \<open>Sample inputs\<close>

text \<open>
  The inputs at which the theorems below are instantiated. The resources are the ones of
  the test suite; a platform is given by the answers of its server.
\<close>

definition sample_resource :: "string option \<Rightarrow> string option \<Rightarrow> health_check option \<Rightarrow> resource" where
  "sample_resource d p h = \<lparr> name = ''my-app'', description = ''A sample app'',
     dockerImageName = ''image-name'', envSecretName = Some ''env-secret'',
     domains = d, portsExposes = p, healthCheck = h \<rparr>"

definition sample_health :: health_check where
  "sample_health = \<lparr> hc_path = Some (JString ''/health''), hc_port = Some (JString ''3000''),
     hc_host = None, hc_method = None, hc_returnCode = None, hc_scheme = None,
     hc_responseText = None, hc_interval = None, hc_timeout = None, hc_retries = None,
     hc_startPeriod = None \<rparr>"

definition example_client :: "bool \<Rightarrow> client" where
  "example_client dry = CoolifyClient ''https://coolify.example.com/'' ''test-token'' (Some dry)"

definition json_response :: "'t \<Rightarrow> 't response" where
  "json_response v = \<lparr> ok = True, status = 200, statusText = ''OK'',
     content_type = Some ''application/json'',
     json_error = Resolves (Some \<lparr> message = None \<rparr>), json = Resolves (Some v) \<rparr>"

definition world_of :: "(nat \<Rightarrow> http_request \<Rightarrow> 't fetch_outcome) \<Rightarrow> 't world" where
  "world_of srv = \<lparr> now = 1000, sent = [], latency = 5, server = srv \<rparr>"

definition two_environments :: "application list world" where
  "two_environments = world_of (\<lambda>n rq. Responded (json_response
     [\<lparr> app_uuid = ''app-1'', app_name = ''api'', environment_id = 123 \<rparr>,
      \<lparr> app_uuid = ''app-2'', app_name = ''api'', environment_id = 456 \<rparr>]))"

definition failed_platform :: "deploy_response world" where
  "failed_platform = world_of (\<lambda>n rq. Responded (json_response
     \<lparr> deploy_status = ''failed'', deployment_uuid = ''d1'' \<rparr>))"


text \<open>A 500 answer without a content type, as a proxy in front of the platform gives.\<close>

definition server_error :: "'t response" where
  "server_error = \<lparr> ok = False, status = 500, statusText = ''Internal Server Error'',
     content_type = None, json_error = Rejects, json = Rejects \<rparr>"

text \<open>A 401 answer that announces JSON and carries a body that is not JSON.\<close>

definition unauthorized_garbled :: "'t response" where
  "unauthorized_garbled = \<lparr> ok = False, status = 401, statusText = ''Unauthorized'',
     content_type = Some ''application/json'', json_error = Rejects, json = Rejects \<rparr>"

text \<open>A 204 answer: no content type, no body.\<close>

definition no_content :: "'t response" where
  "no_content = \<lparr> ok = True, status = 204, statusText = ''No Content'',
     content_type = None, json_error = Rejects, json = Rejects \<rparr>"

text \<open>A 200 answer that announces JSON and has an empty body.\<close>

definition empty_json :: "'t response" where
  "empty_json = \<lparr> ok = True, status = 200, statusText = ''OK'',
     content_type = Some ''application/json'', json_error = Rejects, json = Rejects \<rparr>"

definition answering :: "'t response \<Rightarrow> 't world" where
  "answering r = world_of (\<lambda>n rq. Responded r)"

section \<open>Auxiliary facts\<close>

subsection \<open>Payloads\<close>

lemma map_of_field: "map_of (field k v) k' = (if k' = k then v else None)"
  by (cases v) simp_all

lemma filter_field: "filter P (field k v) = (if P (k, the v) then field k v else [])"
  by (cases v) simp_all

lemma create_lookup_instant:
  "map_of (stringify_create opts) ''instant_deploy'' = map_option JBool (c_instant_deploy opts)"
  by (simp add: stringify_create_def stringify_health_def map_of_field map_add_def
      split: option.splits)

lemma create_lookup_domains:
  "map_of (stringify_create opts) ''domains'' = map_option JString (c_domains opts)"
  by (simp add: stringify_create_def stringify_health_def map_of_field map_add_def
      split: option.splits)

lemma create_lookup_ports:
  "map_of (stringify_create opts) ''ports_exposes'' = map_option JString (c_ports_exposes opts)"
  by (simp add: stringify_create_def stringify_health_def map_of_field map_add_def
      split: option.splits)

lemma update_lookup_domains:
  "map_of (stringify_update opts) ''domains'' = map_option JString (u_domains opts)"
  by (simp add: stringify_update_def stringify_health_def map_of_field map_add_def
      split: option.splits)

lemma update_lookup_ports:
  "map_of (stringify_update opts) ''ports_exposes'' = map_option JString (u_ports_exposes opts)"
  by (simp add: stringify_update_def stringify_health_def map_of_field map_add_def
      split: option.splits)

lemma health_part_field:
  "health_part (field k v) = (if k \<in> set health_keys then field k v else [])"
  by (cases v) (simp_all add: health_part_def)

lemma health_part_Cons:
  "health_part (kv # xs) =
     (if fst kv \<in> set health_keys then kv # health_part xs else health_part xs)"
  by (simp add: health_part_def)

lemma health_part_health: "health_part (stringify_health h) = stringify_health h"
  by (simp add: health_part_def stringify_health_def filter_field health_keys_def)

lemma health_part_append: "health_part (xs @ ys) = health_part xs @ health_part ys"
  by (simp add: health_part_def)

lemma health_part_create: "health_part (stringify_create opts) = stringify_health (c_health opts)"
  by (simp add: stringify_create_def health_part_append health_part_health health_part_field
      health_part_Cons health_keys_def)

lemma health_part_update: "health_part (stringify_update opts) = stringify_health (u_health opts)"
  by (simp add: stringify_update_def health_part_append health_part_health health_part_field
      health_part_Cons health_keys_def)

lemma stringify_no_health: "stringify_health no_health = []"
  by (simp add: stringify_health_def no_health_def)

subsection \<open>Requests\<close>


lemma request_responded:
  "next_response w (mk_request c m p b) = Responded r \<Longrightarrow>
     fst (request c m p b w) = handle_response r"
  by (simp add: request_def fetch_def)

lemma next_response_answering: "next_response (answering r) rq = Responded r"
  by (simp add: next_response_def answering_def world_of_def)

lemma mk_request_dryRun: "mk_request (c\<lparr> dryRun := b \<rparr>) = mk_request c"
  by (rule ext)+ (simp add: mk_request_def)

lemma request_dryRun: "request (c\<lparr> dryRun := b \<rparr>) = request c"
  by (rule ext)+ (simp add: request_def mk_request_dryRun)

lemma handle_2xx:
  assumes "ok r"
  shows "\<not> is_json (content_type r) \<Longrightarrow> handle_response r = Inr None"
    and "is_json (content_type r) \<Longrightarrow> json r = Resolves v \<Longrightarrow> handle_response r = Inr v"
    and "is_json (content_type r) \<Longrightarrow> json r = Rejects \<Longrightarrow> handle_response r = Inl SyntaxError"
  using assms by (simp_all add: handle_response_def)

lemma handle_not_ok:
  assumes "\<not> ok r"
  shows "(is_json (content_type r) \<and> json_error r = Rejects \<longrightarrow> handle_response r = Inl SyntaxError)
     \<and> (\<not> (is_json (content_type r) \<and> json_error r = Rejects) \<longrightarrow>
          (\<exists>msg. handle_response r =
               Inl (Error (if status r = 401 \<or> status r = 403
                           then msg @ '' - Check your API token permissions (scope).'' else msg))
            \<and> (\<forall>m. is_json (content_type r) \<and> json_error r = Resolves (Some \<lparr> message = Some m \<rparr>)
                  \<longrightarrow> msg = m)
            \<and> (\<not> is_json (content_type r) \<or> json_error r = Resolves None
                  \<or> json_error r = Resolves (Some \<lparr> message = None \<rparr>)
                  \<longrightarrow> msg = ''HTTP '' @ show_nat (status r) @ '': '' @ statusText r)))"
proof (cases "is_json (content_type r)")
  case False
  with assms show ?thesis
    by (simp add: handle_response_def with_hint_def base_message_def http_message_def
        token_hint_def)
next
  case True
  show ?thesis
  proof (cases "json_error r")
    case Rejects
    with True assms show ?thesis by (simp add: handle_response_def)
  next
    case (Resolves err)
    show ?thesis
    proof (cases err)
      case None
      with Resolves True assms show ?thesis
        by (simp add: handle_response_def with_hint_def base_message_def http_message_def
            token_hint_def)
    next
      case (Some e)
      obtain mo where e: "e = \<lparr> message = mo \<rparr>" by (cases e) simp
      show ?thesis
      proof (cases mo)
        case None
        with e Some Resolves True assms show ?thesis
          by (simp add: handle_response_def with_hint_def base_message_def http_message_def
              token_hint_def)
      next
        case (Some m)
        with e \<open>err = Some e\<close> Resolves True assms show ?thesis
          by (simp add: handle_response_def with_hint_def base_message_def http_message_def
              token_hint_def)
      qed
    qed
  qed
qed

lemma fst_discard: "fst (discard res) = (case fst res of Inl e \<Rightarrow> Inl e | Inr _ \<Rightarrow> Inr ())"
  by (cases res) (simp add: discard_def split: sum.splits)

lemma discard_request_2xx:
  assumes "next_response w (mk_request c m p b) = Responded r" and "ok r"
  shows "fst (discard (request c m p b w)) =
     (if is_json (content_type r) \<and> json r = Rejects then Inl SyntaxError else Inr ())"
proof (cases "is_json (content_type r)")
  case False
  then show ?thesis
    using handle_2xx(1) [OF assms(2)] request_responded [OF assms(1)] by (simp add: fst_discard)
next
  case True
  then show ?thesis
    using handle_2xx(2,3) [OF assms(2) True] request_responded [OF assms(1)]
    by (cases "json r") (simp_all add: fst_discard)
qed

lemma list_request_2xx:
  assumes "next_response w (mk_request c m p b) = Responded r" and "ok r"
    and "\<not> is_json (content_type r) \<or> json r = Resolves None"
  shows "(case request c m p b w of (Inl e, w') \<Rightarrow> (Inl e, w')
            | (Inr result, w') \<Rightarrow> (Inr (or_empty result), w'))
         = (Inr [], snd (request c m p b w))"
proof -
  have "handle_response r = Inr None"
    using assms(2,3) by (auto simp: handle_response_def)
  then have "fst (request c m p b w) = Inr None"
    using request_responded [OF assms(1)] by simp
  then show ?thesis
    by (cases "request c m p b w") (simp add: or_empty_def)
qed

lemma find_cases:
  "(case find P xs of Some x \<Rightarrow> x \<in> set xs \<and> P x | None \<Rightarrow> \<forall>x \<in> set xs. \<not> P x)"
  by (induction xs) (auto split: option.splits)

subsection \<open>The polling loop\<close>







subsection \<open>Responses whose body can be read\<close>

text \<open>
  What a call makes of a response that is not ok: the remote message if a JSON body has
  one, the HTTP message otherwise, with the token-scope hint for 401 and 403 only. The
  first conjunct is the remaining case, a body that announces JSON and does not parse.
\<close>

lemma request_not_ok:
  assumes "next_response w (mk_request c method path body) = Responded r" and "\<not> ok r"
  shows "(is_json (content_type r) \<and> json_error r = Rejects \<longrightarrow>
            fst (request c method path body w) = Inl SyntaxError)
     \<and> (\<not> (is_json (content_type r) \<and> json_error r = Rejects) \<longrightarrow>
          (\<exists>msg. fst (request c method path body w) =
               Inl (Error (if status r = 401 \<or> status r = 403
                           then msg @ '' - Check your API token permissions (scope).'' else msg))
            \<and> (\<forall>m. is_json (content_type r) \<and> json_error r = Resolves (Some \<lparr> message = Some m \<rparr>)
                  \<longrightarrow> msg = m)
            \<and> (\<not> is_json (content_type r) \<or> json_error r = Resolves None
                  \<or> json_error r = Resolves (Some \<lparr> message = None \<rparr>)
                  \<longrightarrow> msg = ''HTTP '' @ show_nat (status r) @ '': '' @ statusText r)))"
  using handle_not_ok [OF assms(2)] request_responded [OF assms(1)] by simp

text \<open>
  What the four operations without a result make of a 2xx response: they complete, except
  where the response announces JSON and the body does not parse.
\<close>

lemma void_operations_2xx:
  assumes "\<not> dryRun c" and "ok r"
  shows
   "(next_response w (mk_request c ''PATCH'' (''/api/v1/applications/'' @ uuid)
        (Some (UpdateBody options))) = Responded r \<longrightarrow>
      fst (updateApplication c uuid options w) =
        (if is_json (content_type r) \<and> json r = Rejects then Inl SyntaxError else Inr ()))
  \<and> (next_response w (mk_request c ''PATCH'' (''/api/v1/applications/'' @ uuid @ ''/envs/bulk'')
        (Some (EnvVarsBody envVars))) = Responded r \<longrightarrow>
      fst (updateEnvironmentVariables c uuid envVars w) =
        (if is_json (content_type r) \<and> json r = Rejects then Inl SyntaxError else Inr ()))
  \<and> (next_response w (mk_request c ''DELETE''
        (''/api/v1/applications/'' @ uuid @ ''/envs/'' @ envUuid) None) = Responded r \<longrightarrow>
      fst (deleteEnvironmentVariable c uuid envUuid w) =
        (if is_json (content_type r) \<and> json r = Rejects then Inl SyntaxError else Inr ()))
  \<and> (next_response w (mk_request c ''DELETE'' (''/api/v1/applications/'' @ uuid) None)
        = Responded r \<longrightarrow>
      fst (deleteApplication c uuid w) =
        (if is_json (content_type r) \<and> json r = Rejects then Inl SyntaxError else Inr ()))"
  using assms(1) discard_request_2xx [OF _ assms(2)]
  by (simp add: updateApplication_def updateEnvironmentVariables_def
      deleteEnvironmentVariable_def deleteApplication_def)

text \<open>
  What the four list operations make of a 2xx response that does not announce JSON or
  whose JSON body is null: the empty list.
\<close>

lemma list_operations_2xx:
  "(next_response wa (mk_request c ''GET'' ''/api/v1/applications'' None) = Responded ra
      \<and> ok ra \<and> (\<not> is_json (content_type ra) \<or> json ra = Resolves None)
      \<longrightarrow> fst (listApplications c wa) = Inr [])
 \<and> (next_response ws (mk_request c ''GET'' ''/api/v1/servers'' None) = Responded rs
      \<and> ok rs \<and> (\<not> is_json (content_type rs) \<or> json rs = Resolves None)
      \<longrightarrow> fst (listServers c ws) = Inr [])
 \<and> (next_response we
        (mk_request c ''GET'' (''/api/v1/projects/'' @ projectId @ ''/environments'') None)
        = Responded re
      \<and> ok re \<and> (\<not> is_json (content_type re) \<or> json re = Resolves None)
      \<longrightarrow> fst (listEnvironments c projectId we) = Inr [])
 \<and> (next_response wv (mk_request c ''GET'' (''/api/v1/applications/'' @ uuid @ ''/envs'') None)
        = Responded rv
      \<and> ok rv \<and> (\<not> is_json (content_type rv) \<or> json rv = Resolves None)
      \<longrightarrow> fst (listEnvironmentVariables c uuid wv) = Inr [])"
  by (simp add: listApplications_def listServers_def listEnvironments_def
      listEnvironmentVariables_def list_request_2xx)

section \<open>The option builders\<close>

text \<open>
  C9. Whatever the resource and the run identifiers, the creation payload has
  \<^verbatim>\<open>instant_deploy\<close> set to false, in the object and on the wire.
\<close>

theorem create_instant_deploy_false:
  "c_instant_deploy (buildCreateOptions r p s en eu d t) = Some False
   \<and> map_of (stringify_create (buildCreateOptions r p s en eu d t)) ''instant_deploy''
       = Some (JBool False)"
  by (simp add: create_lookup_instant buildCreateOptions_def)

text \<open>
  C4. A declared \<^verbatim>\<open>domains\<close> or \<^verbatim>\<open>portsExposes\<close> that is the empty string leaves the
  key \<^verbatim>\<open>domains\<close> or \<^verbatim>\<open>ports_exposes\<close> out of both payloads (the field is undefined and
  the body sent has no such key); a declared non-empty string is passed on unchanged.
\<close>

theorem empty_networking_omitted:
  "(domains r = Some [] \<longrightarrow>
       c_domains (buildCreateOptions r p s en eu d t) = None
     \<and> map_of (stringify_create (buildCreateOptions r p s en eu d t)) ''domains'' = None
     \<and> u_domains (buildUpdateOptions r t) = None
     \<and> map_of (stringify_update (buildUpdateOptions r t)) ''domains'' = None)
 \<and> (portsExposes r = Some [] \<longrightarrow>
       c_ports_exposes (buildCreateOptions r p s en eu d t) = None
     \<and> map_of (stringify_create (buildCreateOptions r p s en eu d t)) ''ports_exposes'' = None
     \<and> u_ports_exposes (buildUpdateOptions r t) = None
     \<and> map_of (stringify_update (buildUpdateOptions r t)) ''ports_exposes'' = None)
 \<and> (\<forall>v. domains r = Some v \<and> v \<noteq> [] \<longrightarrow>
       c_domains (buildCreateOptions r p s en eu d t) = Some v
     \<and> map_of (stringify_create (buildCreateOptions r p s en eu d t)) ''domains''
         = Some (JString v)
     \<and> u_domains (buildUpdateOptions r t) = Some v
     \<and> map_of (stringify_update (buildUpdateOptions r t)) ''domains'' = Some (JString v))
 \<and> (\<forall>v. portsExposes r = Some v \<and> v \<noteq> [] \<longrightarrow>
       c_ports_exposes (buildCreateOptions r p s en eu d t) = Some v
     \<and> map_of (stringify_create (buildCreateOptions r p s en eu d t)) ''ports_exposes''
         = Some (JString v)
     \<and> u_ports_exposes (buildUpdateOptions r t) = Some v
     \<and> map_of (stringify_update (buildUpdateOptions r t)) ''ports_exposes''
         = Some (JString v))"
  by (simp add: create_lookup_domains create_lookup_ports update_lookup_domains
      update_lookup_ports buildCreateOptions_def buildUpdateOptions_def or_undefined_def)

text \<open>
  C4 at two resources of the test suite's shape: one that declares both fields empty, one
  that declares \<^verbatim>\<open>test.com\<close> and \<^verbatim>\<open>3000\<close>.
\<close>

theorem empty_networking_omitted_witness:
  "portsExposes (sample_resource (Some []) (Some []) None) = Some []
   \<and> domains (sample_resource (Some []) (Some []) None) = Some []
   \<and> map_of (stringify_create (buildCreateOptions (sample_resource (Some []) (Some []) None)
        ''project-uuid'' ''server-uuid'' ''production'' ''env-uuid'' ''dest-uuid'' ''v1.0.0''))
        ''ports_exposes'' = None
   \<and> map_of (stringify_update
        (buildUpdateOptions (sample_resource (Some []) (Some []) None) ''v1.0.0''))
        ''domains'' = None
   \<and> map_of (stringify_create
        (buildCreateOptions (sample_resource (Some ''test.com'') (Some ''3000'') None)
        ''project-uuid'' ''server-uuid'' ''production'' ''env-uuid'' ''dest-uuid'' ''v1.0.0''))
        ''domains'' = Some (JString ''test.com'')
   \<and> map_of (stringify_update
        (buildUpdateOptions (sample_resource (Some ''test.com'') (Some ''3000'') None) ''v1.0.0''))
        ''ports_exposes'' = Some (JString ''3000'')"
  using empty_networking_omitted [of "sample_resource (Some []) (Some []) None"
          "''project-uuid''" "''server-uuid''" "''production''" "''env-uuid''" "''dest-uuid''"
          "''v1.0.0''"]
        empty_networking_omitted [of "sample_resource (Some ''test.com'') (Some ''3000'') None"
          "''project-uuid''" "''server-uuid''" "''production''" "''env-uuid''" "''dest-uuid''"
          "''v1.0.0''"]
  by (simp add: sample_resource_def)

text \<open>
  C6. The health-check keys travel as a group. With a \<^verbatim>\<open>healthCheck\<close> the payload has
  \<^verbatim>\<open>health_check_enabled\<close> true and each sub-field copied, an undefined one staying
  undefined (none is defaulted), so that the body on the wire has the flag followed by
  exactly the defined sub-fields; the update payload carries the same group as the
  creation payload. Without a \<^verbatim>\<open>healthCheck\<close> every health-check field of both payloads
  is undefined and neither body has any \<^verbatim>\<open>health_check_*\<close> key.
\<close>

theorem health_check_group:
  "(\<forall>hc. healthCheck r = Some hc \<longrightarrow>
       c_health (buildCreateOptions r p s en eu d t) =
         \<lparr> health_check_enabled = Some True,
           health_check_path = hc_path hc,
           health_check_port = hc_port hc,
           health_check_host = hc_host hc,
           health_check_method = hc_method hc,
           health_check_return_code = hc_returnCode hc,
           health_check_scheme = hc_scheme hc,
           health_check_response_text = hc_responseText hc,
           health_check_interval = hc_interval hc,
           health_check_timeout = hc_timeout hc,
           health_check_retries = hc_retries hc,
           health_check_start_period = hc_startPeriod hc \<rparr>
     \<and> u_health (buildUpdateOptions r t) = c_health (buildCreateOptions r p s en eu d t)
     \<and> health_part (stringify_create (buildCreateOptions r p s en eu d t)) =
         (''health_check_enabled'', JBool True) #
         field ''health_check_path'' (hc_path hc) @
         field ''health_check_port'' (hc_port hc) @
         field ''health_check_host'' (hc_host hc) @
         field ''health_check_method'' (hc_method hc) @
         field ''health_check_return_code'' (hc_returnCode hc) @
         field ''health_check_scheme'' (hc_scheme hc) @
         field ''health_check_response_text'' (hc_responseText hc) @
         field ''health_check_interval'' (hc_interval hc) @
         field ''health_check_timeout'' (hc_timeout hc) @
         field ''health_check_retries'' (hc_retries hc) @
         field ''health_check_start_period'' (hc_startPeriod hc)
     \<and> health_part (stringify_update (buildUpdateOptions r t)) =
         health_part (stringify_create (buildCreateOptions r p s en eu d t)))
 \<and> (healthCheck r = None \<longrightarrow>
       c_health (buildCreateOptions r p s en eu d t) =
         \<lparr> health_check_enabled = None, health_check_path = None, health_check_port = None,
           health_check_host = None, health_check_method = None,
           health_check_return_code = None, health_check_scheme = None,
           health_check_response_text = None, health_check_interval = None,
           health_check_timeout = None, health_check_retries = None,
           health_check_start_period = None \<rparr>
     \<and> u_health (buildUpdateOptions r t) = c_health (buildCreateOptions r p s en eu d t)
     \<and> health_part (stringify_create (buildCreateOptions r p s en eu d t)) = []
     \<and> health_part (stringify_update (buildUpdateOptions r t)) = [])"
  by (simp add: health_part_create health_part_update buildCreateOptions_def
      buildUpdateOptions_def health_of_def stringify_no_health)
     (simp add: stringify_health_def no_health_def)

text \<open>
  C6 at the test suite's resource with \<^verbatim>\<open>healthCheck: { path: "/health", port: "3000" }\<close>
  and at a resource without a health check.
\<close>

theorem health_check_group_witness:
  "healthCheck (sample_resource None None (Some sample_health)) = Some sample_health
   \<and> health_part (stringify_update
        (buildUpdateOptions (sample_resource None None (Some sample_health)) ''v2.0.0'')) =
       [(''health_check_enabled'', JBool True), (''health_check_path'', JString ''/health''),
        (''health_check_port'', JString ''3000'')]
   \<and> healthCheck (sample_resource None None None) = None
   \<and> health_part (stringify_create (buildCreateOptions (sample_resource None None None)
        ''project-uuid'' ''server-uuid'' ''production'' ''env-uuid'' ''dest-uuid'' ''latest''))
       = []"
  using health_check_group [of "sample_resource None None (Some sample_health)"
          "''project-uuid''" "''server-uuid''" "''production''" "''env-uuid''" "''dest-uuid''"
          "''v2.0.0''"]
        health_check_group [of "sample_resource None None None"
          "''project-uuid''" "''server-uuid''" "''production''" "''env-uuid''" "''dest-uuid''"
          "''latest''"]
  by (simp add: sample_resource_def sample_health_def)

section \<open>Finding an application\<close>

text \<open>
  C2. When the platform's list of applications is \<open>apps\<close>, \<^verbatim>\<open>findApplicationByName\<close>
  returns an application of that list whose name is the requested name and whose
  environment id is the requested id, and returns null exactly when the list has no such
  application. An application of the same name in another environment is never returned.
\<close>

theorem findApplicationByName_scoped:
  assumes "fst (listApplications c w) = Inr apps"
  shows "\<exists>found. fst (findApplicationByName c nm eid w) = Inr found
     \<and> (case found of
          Some app \<Rightarrow> app \<in> set apps \<and> app_name app = nm \<and> environment_id app = eid
        | None \<Rightarrow> \<forall>app \<in> set apps. \<not> (app_name app = nm \<and> environment_id app = eid))"
proof -
  let ?P = "\<lambda>app. app_name app = nm \<and> environment_id app = eid"
  obtain w' where l: "listApplications c w = (Inr apps, w')"
    using assms by (cases "listApplications c w") simp
  then have f: "fst (findApplicationByName c nm eid w) = Inr (find ?P apps)"
    by (simp add: findApplicationByName_def)
  show ?thesis
    using f find_cases [where P = ?P and xs = apps] by simp
qed

text \<open>
  C2 on a platform with two applications called \<^verbatim>\<open>api\<close>, in environments 123 and 456:
  the search in environment 456 finds the second, the search in environment 789 finds
  nothing.
\<close>

theorem findApplicationByName_scoped_witness:
  "fst (listApplications (example_client False) two_environments) =
      Inr [\<lparr> app_uuid = ''app-1'', app_name = ''api'', environment_id = 123 \<rparr>,
           \<lparr> app_uuid = ''app-2'', app_name = ''api'', environment_id = 456 \<rparr>]
   \<and> fst (findApplicationByName (example_client False) ''api'' 456 two_environments) =
      Inr (Some \<lparr> app_uuid = ''app-2'', app_name = ''api'', environment_id = 456 \<rparr>)
   \<and> fst (findApplicationByName (example_client False) ''api'' 789 two_environments) = Inr None"
proof -
  have l: "fst (listApplications (example_client False) two_environments) =
      Inr [\<lparr> app_uuid = ''app-1'', app_name = ''api'', environment_id = 123 \<rparr>,
           \<lparr> app_uuid = ''app-2'', app_name = ''api'', environment_id = 456 \<rparr>]"
    by (simp add: listApplications_def request_def fetch_def next_response_def
        two_environments_def world_of_def json_response_def handle_response_def is_json_def
        or_empty_def)
  show ?thesis
    using l findApplicationByName_scoped [OF l, of "''api''" 456]
      findApplicationByName_scoped [OF l, of "''api''" 789]
    by (auto split: option.splits)
qed

section \<open>Dry-run mode\<close>

text \<open>
  C5. With \<^verbatim>\<open>dryRun\<close> set, each mutating operation returns its synthetic value and leaves
  the world as it was, so that no request is issued: creation returns the uuid
  \<^verbatim>\<open>dry-run-uuid\<close>, the deploy trigger returns \<^verbatim>\<open>dry-run-deployment-uuid\<close>, and the four
  operations without a result return normally.
\<close>

theorem dry_run_mutations_simulated:
  assumes "dryRun c"
  shows "createDockerImageApplication c options wc = (Inr \<lparr> cr_uuid = ''dry-run-uuid'' \<rparr>, wc)
       \<and> updateApplication c uuid uopts w = (Inr (), w)
       \<and> updateEnvironmentVariables c uuid envVars w = (Inr (), w)
       \<and> deleteEnvironmentVariable c uuid envUuid w = (Inr (), w)
       \<and> deleteApplication c uuid w = (Inr (), w)
       \<and> deployApplication c uuid wd = (Inr (Some ''dry-run-deployment-uuid''), wd)"
  using assms
  by (simp add: createDockerImageApplication_def updateApplication_def
      updateEnvironmentVariables_def deleteEnvironmentVariable_def deleteApplication_def
      deployApplication_def)

text \<open>
  C5 for a dry-run client in front of a platform that would answer every request with a
  500: nothing is sent and the synthetic values come back.
\<close>

theorem dry_run_mutations_simulated_witness:
  "dryRun (example_client True)
   \<and> fst (createDockerImageApplication (example_client True)
        (buildCreateOptions (sample_resource None None None) ''project-uuid'' ''server-uuid''
           ''production'' ''env-uuid'' ''dest-uuid'' ''v1.0.0'') (answering server_error))
       = Inr \<lparr> cr_uuid = ''dry-run-uuid'' \<rparr>
   \<and> sent (snd (deployApplication (example_client True) ''app-uuid'' (answering server_error))) = []
   \<and> fst (deployApplication (example_client True) ''app-uuid'' (answering server_error))
       = Inr (Some ''dry-run-deployment-uuid'')
   \<and> sent (snd (deleteApplication (example_client True) ''app-uuid''
        (answering (server_error :: unit response)))) = []"
proof -
  have d: "dryRun (example_client True)"
    by (simp add: example_client_def CoolifyClient_def)
  show ?thesis
    using d dry_run_mutations_simulated [OF d, of _ "answering server_error" "''app-uuid''" _
       "answering (server_error :: unit response)" _ _ "answering server_error"]
    by (simp add: answering_def world_of_def)
qed

text \<open>
  C1, as the code has it. With \<^verbatim>\<open>dryRun\<close> set, listing and finding applications and
  environments do what they do in live mode: the same request is issued and the same
  result returned. \<^verbatim>\<open>getDeployment\<close> and \<^verbatim>\<open>waitForDeployment\<close> do not contact the
  platform in dry-run mode: they return a deployment with status \<^verbatim>\<open>finished\<close> for the
  uuid they were given and leave the world as it was.
\<close>

theorem read_operations_in_dry_run:
  assumes "dryRun c"
  shows "listApplications c wa = listApplications (c\<lparr> dryRun := False \<rparr>) wa
       \<and> sent (snd (listApplications c wa)) =
           sent wa @ [mk_request c ''GET'' ''/api/v1/applications'' None]
       \<and> findApplicationByName c nm eid wa =
           findApplicationByName (c\<lparr> dryRun := False \<rparr>) nm eid wa
       \<and> listEnvironments c pid we = listEnvironments (c\<lparr> dryRun := False \<rparr>) pid we
       \<and> sent (snd (listEnvironments c pid we)) =
           sent we @ [mk_request c ''GET'' (''/api/v1/projects/'' @ pid @ ''/environments'') None]
       \<and> findEnvironmentByName c pid nm we =
           findEnvironmentByName (c\<lparr> dryRun := False \<rparr>) pid nm we
       \<and> getDeployment c uuid wd =
           (Inr (Some \<lparr> deploy_status = ''finished'', deployment_uuid = uuid \<rparr>), wd)
       \<and> waitForDeployment c uuid tmo itv wd =
           Some (Inr \<lparr> deploy_status = ''finished'', deployment_uuid = uuid \<rparr>, wd)"
  using assms
  apply (simp add: listApplications_def findApplicationByName_def listEnvironments_def
      findEnvironmentByName_def getDeployment_def waitForDeployment_def request_dryRun)
  apply (simp add: request_def fetch_def split: fetch_outcome.splits sum.splits prod.splits)
  done

text \<open>
  C1 as amended, for a dry-run client: the search on the platform with two environments
  reads the real list, and the deployment that the platform reports as failed is
  reported as finished.
\<close>

theorem read_operations_in_dry_run_witness:
  "dryRun (example_client True)
   \<and> fst (findApplicationByName (example_client True) ''api'' 456 two_environments) =
       Inr (Some \<lparr> app_uuid = ''app-2'', app_name = ''api'', environment_id = 456 \<rparr>)
   \<and> sent (snd (listApplications (example_client True) two_environments)) =
       sent two_environments @ [mk_request (example_client True) ''GET'' ''/api/v1/applications'' None]
   \<and> getDeployment (example_client True) ''d1'' failed_platform =
       (Inr (Some \<lparr> deploy_status = ''finished'', deployment_uuid = ''d1'' \<rparr>), failed_platform)"
proof -
  have d: "dryRun (example_client True)"
    by (simp add: example_client_def CoolifyClient_def)
  have f: "fst (findApplicationByName (example_client True\<lparr> dryRun := False \<rparr>) ''api'' 456
              two_environments) =
       Inr (Some \<lparr> app_uuid = ''app-2'', app_name = ''api'', environment_id = 456 \<rparr>)"
    by (simp add: findApplicationByName_def listApplications_def request_def fetch_def
        next_response_def two_environments_def world_of_def json_response_def
        handle_response_def is_json_def or_empty_def)
  note t = read_operations_in_dry_run [OF d, where wa = two_environments and nm = "''api''"
      and eid = 456 and uuid = "''d1''" and wd = failed_platform]
  from t have "findApplicationByName (example_client True) ''api'' 456 two_environments =
      findApplicationByName (example_client True\<lparr> dryRun := False \<rparr>) ''api'' 456 two_environments"
    by blast
  with f have 1:
    "fst (findApplicationByName (example_client True) ''api'' 456 two_environments) =
       Inr (Some \<lparr> app_uuid = ''app-2'', app_name = ''api'', environment_id = 456 \<rparr>)"
    by simp
  from t have 2: "sent (snd (listApplications (example_client True) two_environments)) =
       sent two_environments @ [mk_request (example_client True) ''GET'' ''/api/v1/applications'' None]"
    by blast
  from t have 3: "getDeployment (example_client True) ''d1'' failed_platform =
       (Inr (Some \<lparr> deploy_status = ''finished'', deployment_uuid = ''d1'' \<rparr>), failed_platform)"
    by blast
  from d 1 2 3 show ?thesis by blast
qed

text \<open>
  C1 as stated fails: for the deployment \<^verbatim>\<open>d1\<close>, which the platform reports as
  \<^verbatim>\<open>failed\<close>, a dry-run client answers \<^verbatim>\<open>finished\<close> and sends nothing, where a live
  client returns the platform's answer.
\<close>

theorem dry_run_getDeployment_counterexample:
  "fst (getDeployment (example_client True) ''d1'' failed_platform) =
      Inr (Some \<lparr> deploy_status = ''finished'', deployment_uuid = ''d1'' \<rparr>)
   \<and> sent (snd (getDeployment (example_client True) ''d1'' failed_platform)) = sent failed_platform
   \<and> fst (getDeployment (example_client False) ''d1'' failed_platform) =
      Inr (Some \<lparr> deploy_status = ''failed'', deployment_uuid = ''d1'' \<rparr>)"
  by (simp add: example_client_def getDeployment_def CoolifyClient_def failed_platform_def
      world_of_def request_def fetch_def next_response_def handle_response_def
      json_response_def is_json_def)

section \<open>Responses\<close>

text \<open>
  C7. A response that is not ok should make the call fail with the remote message or the
  HTTP message, and with the token-scope hint for 401 and 403. The code reads the body
  with \<^verbatim>\<open>response.json()\<close> before it builds the message, and nothing catches the
  parser: at a 401 answer that announces JSON and whose body is not JSON,
  \<^verbatim>\<open>listApplications\<close> fails with the SyntaxError, which carries neither a message of
  the platform, nor the HTTP message, nor the hint. The same answer without the JSON
  content type takes the other path and gets the HTTP message with the hint.
\<close>

theorem unparseable_error_body_loses_message_and_hint:
  "\<not> ok (unauthorized_garbled :: application list response)
   \<and> status (unauthorized_garbled :: application list response) = 401
   \<and> is_json (content_type (unauthorized_garbled :: application list response))
   \<and> json_error (unauthorized_garbled :: application list response) = Rejects
   \<and> fst (listApplications (example_client False) (answering unauthorized_garbled))
       = Inl SyntaxError
   \<and> fst (listApplications (example_client False)
        (answering (unauthorized_garbled\<lparr> content_type := Some ''text/html'' \<rparr>)))
       = Inl (Error ''HTTP 401: Unauthorized - Check your API token permissions (scope).'')"
proof -
  have s: "show_nat 401 = ''401''" by code_simp
  show ?thesis
    by (simp add: listApplications_def request_def fetch_def next_response_answering
        handle_response_def unauthorized_garbled_def is_json_def with_hint_def
        base_message_def http_message_def token_hint_def s)
qed

text \<open>
  C8. A 2xx response with an empty body should complete an operation without a result.
  The code decides by the content type whether to read the body: at a 200 answer that
  announces JSON and has an empty body, \<^verbatim>\<open>response.json()\<close> rejects and each of the four
  operations fails with the SyntaxError. The 204 answer, which has no content type,
  completes them.
\<close>

theorem empty_json_body_fails_void_operations:
  "ok (empty_json :: unit response) \<and> status (empty_json :: unit response) = 200
   \<and> json (empty_json :: unit response) = Rejects
   \<and> fst (updateApplication (example_client False) ''app-1''
        (buildUpdateOptions (sample_resource None None None) ''v1'')
        (answering (empty_json :: unit response))) = Inl SyntaxError
   \<and> fst (updateEnvironmentVariables (example_client False) ''app-1''
        [\<lparr> ev_key = ''A'', ev_value = ''1'' \<rparr>]
        (answering (empty_json :: unit response))) = Inl SyntaxError
   \<and> fst (deleteEnvironmentVariable (example_client False) ''app-1'' ''env-1''
        (answering (empty_json :: unit response))) = Inl SyntaxError
   \<and> fst (deleteApplication (example_client False) ''app-1''
        (answering (empty_json :: unit response))) = Inl SyntaxError
   \<and> fst (deleteApplication (example_client False) ''app-1''
        (answering (no_content :: unit response))) = Inr ()"
  by (simp add: updateApplication_def updateEnvironmentVariables_def
      deleteEnvironmentVariable_def deleteApplication_def discard_def request_def fetch_def
      next_response_answering handle_response_def empty_json_def no_content_def is_json_def
      example_client_def CoolifyClient_def)

text \<open>
  C10. A list operation should return the empty list when the platform answers with a
  2xx and an empty body. At a 200 answer that announces JSON and has an empty body,
  \<^verbatim>\<open>response.json()\<close> rejects before \<^verbatim>\<open>result ?? []\<close> is reached, and each of the four
  list operations fails with the SyntaxError. The 204 answer, which has no content type,
  gives the empty list.
\<close>

theorem empty_json_body_fails_list_operations:
  "ok (empty_json :: application list response)
   \<and> json (empty_json :: application list response) = Rejects
   \<and> fst (listApplications (example_client False) (answering empty_json)) = Inl SyntaxError
   \<and> fst (listServers (example_client False) (answering (empty_json :: unit list response)))
       = Inl SyntaxError
   \<and> fst (listEnvironments (example_client False) ''project-1'' (answering empty_json))
       = Inl SyntaxError
   \<and> fst (listEnvironmentVariables (example_client False) ''app-1''
        (answering (empty_json :: env_var list response))) = Inl SyntaxError
   \<and> fst (listApplications (example_client False) (answering no_content)) = Inr []"
  by (simp add: listApplications_def listServers_def listEnvironments_def
      listEnvironmentVariables_def request_def fetch_def next_response_answering
      handle_response_def empty_json_def no_content_def is_json_def or_empty_def)

section \<open>Waiting for a deployment\<close>




end
